theory Spec2Isabelle
  imports Complex_Main "HOL-Library.AList" "HOL-Library.Sublist"
begin

section \<open>Python values and their text\<close>

text \<open>
  The judge's raw response, the rows' inputs and outputs and the cells of the grading
  context columns are Python objects. The embedding covers \<open>None\<close>, \<open>bool\<close>, \<open>int\<close>,
  \<open>str\<close>, \<open>list\<close> and \<open>dict\<close> with \<open>str\<close> keys. A \<open>str\<close> is a \<open>string\<close> whose characters
  are the code points 0 to 255; a \<open>dict\<close> is an association list in insertion order, its
  keys distinct. Floating point objects are not among these values.
\<close>

datatype pyval =
    PNone
  | PBool bool
  | PInt int
  | PStr string
  | PList "pyval list"
  | PDict "(string \<times> pyval) list"

definition squote :: char where "squote = CHR 0x27"
definition dquote :: char where "dquote = CHR 0x22"
definition backslash :: char where "backslash = CHR 0x5C"
definition newline :: char where "newline = CHR 0x0A"

text \<open>\<open>type(v).__name__\<close>, as the interpreter prints it in its error messages.\<close>

fun type_name :: "pyval \<Rightarrow> string" where
  "type_name PNone = ''NoneType''"
| "type_name (PBool _) = ''bool''"
| "type_name (PInt _) = ''int''"
| "type_name (PStr _) = ''str''"
| "type_name (PList _) = ''list''"
| "type_name (PDict _) = ''dict''"

text \<open>Truth value of an object in a condition (\<open>if text:\<close>).\<close>

fun truthy :: "pyval \<Rightarrow> bool" where
  "truthy PNone = False"
| "truthy (PBool b) = b"
| "truthy (PInt i) = (i \<noteq> 0)"
| "truthy (PStr s) = (s \<noteq> [])"
| "truthy (PList xs) = (xs \<noteq> [])"
| "truthy (PDict kvs) = (kvs \<noteq> [])"

text \<open>\<open>sep.join(parts)\<close>.\<close>

fun join :: "string \<Rightarrow> string list \<Rightarrow> string" where
  "join sep [] = []"
| "join sep [p] = p"
| "join sep (p # q # ps) = p @ sep @ join sep (q # ps)"

text \<open>Decimal text of an integer (\<open>str(i)\<close>).\<close>

fun show_nat :: "nat \<Rightarrow> string" where
  "show_nat n =
     (if n < 10 then [''0123456789'' ! n]
      else show_nat (n div 10) @ [''0123456789'' ! (n mod 10)])"

declare show_nat.simps [simp del]

definition show_int :: "int \<Rightarrow> string" where
  "show_int i = (if i < 0 then CHR ''-'' # show_nat (nat (- i)) else show_nat (nat i))"

text \<open>
  \<open>repr\<close> of a \<open>str\<close>: double quotes when the text holds a single quote and no double
  quote, single quotes otherwise; the quote, the backslash, tab, newline and carriage
  return are escaped, every other character that is not printable is written
  \<open>\xhh\<close>. Among the code points 0 to 255 the printable ones are 32 to 126 and 161 to
  255 without 173.
\<close>

definition isprintable :: "char \<Rightarrow> bool" where
  "isprintable c =
     (let n = (of_char c :: nat) in (32 \<le> n \<and> n < 127) \<or> (161 \<le> n \<and> n \<noteq> 173))"

definition hex2 :: "nat \<Rightarrow> string" where
  "hex2 n = [''0123456789abcdef'' ! (n div 16), ''0123456789abcdef'' ! (n mod 16)]"

definition repr_char :: "char \<Rightarrow> char \<Rightarrow> string" where
  "repr_char q c =
     (if c = q \<or> c = backslash then [backslash, c]
      else if c = CHR 0x09 then [backslash, CHR ''t'']
      else if c = CHR 0x0A then [backslash, CHR ''n'']
      else if c = CHR 0x0D then [backslash, CHR ''r'']
      else if isprintable c then [c]
      else backslash # CHR ''x'' # hex2 (of_char c))"

definition repr_str :: "string \<Rightarrow> string" where
  "repr_str s =
     (let q = (if squote \<in> set s \<and> dquote \<notin> set s then dquote else squote)
      in q # concat (map (repr_char q) s) @ [q])"

fun py_repr :: "pyval \<Rightarrow> string" where
  "py_repr PNone = ''None''"
| "py_repr (PBool b) = (if b then ''True'' else ''False'')"
| "py_repr (PInt i) = show_int i"
| "py_repr (PStr s) = repr_str s"
| "py_repr (PList xs) = ''['' @ join '', '' (map py_repr xs) @ '']''"
| "py_repr (PDict kvs) =
     ''{'' @ join '', '' (map (\<lambda>(k, v). repr_str k @ '': '' @ py_repr v) kvs) @ ''}''"

text \<open>\<open>str(v)\<close>, which an f-string field \<open>{v}\<close> inserts: the text itself for a \<open>str\<close>.\<close>

fun py_str :: "pyval \<Rightarrow> string" where
  "py_str (PStr s) = s"
| "py_str v = py_repr v"

text \<open>\<open>repr\<close> of a list of \<open>str\<close>, as \<open>{grading_context_columns}\<close> prints it.\<close>

definition repr_str_list :: "string list \<Rightarrow> string" where
  "repr_str_list xs = ''['' @ join '', '' (map repr_str xs) @ '']''"


section \<open>Exceptions\<close>

text \<open>
  Modelled from the spec: the class \<open>MlflowException\<close> and the error codes of
  \<open>mlflow.protos.databricks_pb2\<close> are declared outside the files at hand. An
  \<open>MlflowException\<close> carries a message and the name of an error code, which is
  \<open>INTERNAL_ERROR\<close> when the constructor is given none; the spec's fatal judge errors
  are the codes \<open>BAD_REQUEST\<close> (a malformed or rejected request) and \<open>UNAUTHENTICATED\<close>
  (an authentication failure).
\<close>

datatype error_code =
    INTERNAL_ERROR
  | INVALID_PARAMETER_VALUE
  | BAD_REQUEST
  | UNAUTHENTICATED
  | OTHER_CODE string

text \<open>
  An exception is its class and its single argument. \<open>NotModelled\<close> is no Python
  class: it marks a text that leaves the embedding (see \<open>scanstring\<close>). The interpreter's
  messages are written in the wording of CPython 3.11.
\<close>

datatype exn_class =
    MlflowException error_code
  | UnboundLocalError
  | KeyError
  | IndexError
  | TypeError
  | AttributeError
  | ValueError
  | OverflowError
  | JSONDecodeError
  | TimeoutError
  | OtherException string
  | NotModelled

datatype exn = Raised (class_of: exn_class) (arg_of: string)

fun class_name :: "exn_class \<Rightarrow> string" where
  "class_name (MlflowException _) = ''MlflowException''"
| "class_name UnboundLocalError = ''UnboundLocalError''"
| "class_name KeyError = ''KeyError''"
| "class_name IndexError = ''IndexError''"
| "class_name TypeError = ''TypeError''"
| "class_name AttributeError = ''AttributeError''"
| "class_name ValueError = ''ValueError''"
| "class_name OverflowError = ''OverflowError''"
| "class_name JSONDecodeError = ''JSONDecodeError''"
| "class_name TimeoutError = ''TimeoutError''"
| "class_name (OtherException n) = n"
| "class_name NotModelled = ''NotModelled''"

text \<open>\<open>str(e)\<close> (the field \<open>{e!s}\<close>): the argument, which a \<open>KeyError\<close> prints as its \<open>repr\<close>.\<close>

definition exn_str :: "exn \<Rightarrow> string" where
  "exn_str e = (if class_of e = KeyError then repr_str (arg_of e) else arg_of e)"

text \<open>\<open>repr(e)\<close> (the field \<open>{e!r}\<close>).\<close>

definition exn_repr :: "exn \<Rightarrow> string" where
  "exn_repr e = class_name (class_of e) @ ''('' @ repr_str (arg_of e) @ '')''"

section \<open>The library calls of the parser\<close>

subsection \<open>What \<open>json.loads\<close> returns\<close>

text \<open>
  A JSON number with a fraction or an exponent is decoded to a \<open>float\<close>. The parser
  observes such a value only through \<open>int\<close>, so a float is kept as the decimal its literal
  denotes, \<open>Dec m e\<close> for \<open>m * 10 ^ e\<close>, and \<open>int\<close> rounds it to the nearest binary64
  first.
\<close>

datatype pyfloat = Dec int int | NaN | Infinity

datatype jsonval =
    JNull
  | JBool bool
  | JInt int
  | JFloat pyfloat
  | JStr string
  | JList "jsonval list"
  | JDict "(string \<times> jsonval) list"

fun json_type_name :: "jsonval \<Rightarrow> string" where
  "json_type_name JNull = ''NoneType''"
| "json_type_name (JBool _) = ''bool''"
| "json_type_name (JInt _) = ''int''"
| "json_type_name (JFloat _) = ''float''"
| "json_type_name (JStr _) = ''str''"
| "json_type_name (JList _) = ''list''"
| "json_type_name (JDict _) = ''dict''"

subsection \<open>\<open>int(x)\<close>\<close>

fun bit_length :: "nat \<Rightarrow> nat" where
  "bit_length n = (if n = 0 then 0 else Suc (bit_length (n div 2)))"

declare bit_length.simps [simp del]

definition round_half_even :: "nat \<Rightarrow> nat \<Rightarrow> nat" where
  "round_half_even x y =
     (let q = x div y; r = x mod y
      in if 2 * r < y then q
         else if y < 2 * r then q + 1
         else if even q then q else q + 1)"

text \<open>
  The integer part of the binary64 nearest to \<open>a / b\<close> (ties to even), for \<open>b > 0\<close>;
  \<open>None\<close> when that is infinity. With \<open>k\<close> the bit length of \<open>a div b\<close>, the value lies
  in the binade whose unit in the last place is \<open>2 ^ (k - 53)\<close>; below one half the
  nearest binary64 is below one.
\<close>

definition trunc_binary64 :: "nat \<Rightarrow> nat \<Rightarrow> nat option" where
  "trunc_binary64 a b =
     (if 2 * a < b then Some 0
      else
        let k = bit_length (a div b)
        in if k \<le> 53
           then Some (round_half_even (a * 2 ^ (53 - k)) b div 2 ^ (53 - k))
           else
             let n = round_half_even a (b * 2 ^ (k - 53)) * 2 ^ (k - 53)
             in if 2 ^ 1024 \<le> n then None else Some n)"

fun float_to_int :: "pyfloat \<Rightarrow> exn + int" where
  "float_to_int NaN = Inl (Raised ValueError ''cannot convert float NaN to integer'')"
| "float_to_int Infinity =
     Inl (Raised OverflowError ''cannot convert float infinity to integer'')"
| "float_to_int (Dec m e) =
     (case trunc_binary64 (nat \<bar>m\<bar> * (if 0 \<le> e then 10 ^ nat e else 1))
                          (if 0 \<le> e then 1 else 10 ^ nat (- e)) of
        None \<Rightarrow> Inl (Raised OverflowError ''cannot convert float infinity to integer'')
      | Some t \<Rightarrow> Inr (sgn m * int t))"

text \<open>Character classes of \<open>str\<close> over the code points 0 to 255.\<close>

definition isdigit :: "char \<Rightarrow> bool" where
  "isdigit c = (let n = (of_char c :: nat) in 48 \<le> n \<and> n \<le> 57)"

definition isspace :: "char \<Rightarrow> bool" where
  "isspace c =
     (let n = (of_char c :: nat)
      in (9 \<le> n \<and> n \<le> 13) \<or> (28 \<le> n \<and> n \<le> 32) \<or> n = 133 \<or> n = 160)"

definition digit_val :: "char \<Rightarrow> nat" where
  "digit_val c = of_char c - 48"

definition nat_of_digits :: "string \<Rightarrow> nat" where
  "nat_of_digits ds = foldl (\<lambda>n c. 10 * n + digit_val c) 0 ds"

text \<open>
  The digits of a base 10 literal: at least one digit, single underscores allowed
  between digits.
\<close>

fun int_digits :: "string \<Rightarrow> string option" where
  "int_digits [] = None"
| "int_digits (c # cs) =
     (if \<not> isdigit c then None
      else case cs of
             [] \<Rightarrow> Some [c]
           | d # ds \<Rightarrow>
               map_option (Cons c) (if d = CHR ''_'' then int_digits ds else int_digits cs))"

definition strip :: "string \<Rightarrow> string" where
  "strip s = rev (dropWhile isspace (rev (dropWhile isspace s)))"

text \<open>
  \<open>int(s)\<close> for a \<open>str\<close>: surrounding whitespace, an optional sign, the digits. The
  interpreter's limit on the number of digits of such a conversion is not modelled.
\<close>

definition str_to_int :: "string \<Rightarrow> exn + int" where
  "str_to_int s =
     (let t = strip s;
          neg = (t \<noteq> [] \<and> hd t = CHR ''-'');
          u = (if t \<noteq> [] \<and> (hd t = CHR ''-'' \<or> hd t = CHR ''+'') then tl t else t)
      in case int_digits u of
           None \<Rightarrow>
             Inl (Raised ValueError (''invalid literal for int() with base 10: '' @ repr_str s))
         | Some ds \<Rightarrow> Inr (if neg then - int (nat_of_digits ds) else int (nat_of_digits ds)))"

definition int_type_error :: "string \<Rightarrow> exn" where
  "int_type_error tn =
     Raised TypeError
       (''int() argument must be a string, a bytes-like object or a real number, not ''
        @ [squote] @ tn @ [squote])"

fun py_int :: "jsonval \<Rightarrow> exn + int" where
  "py_int JNull = Inl (int_type_error ''NoneType'')"
| "py_int (JBool b) = Inr (if b then 1 else 0)"
| "py_int (JInt i) = Inr i"
| "py_int (JFloat f) = float_to_int f"
| "py_int (JStr s) = str_to_int s"
| "py_int (JList xs) = Inl (int_type_error ''list'')"
| "py_int (JDict kvs) = Inl (int_type_error ''dict'')"

text \<open>\<open>data.get(key)\<close>: \<open>None\<close> for a missing key, an \<open>AttributeError\<close> when \<open>data\<close> is no \<open>dict\<close>.\<close>

fun json_get :: "jsonval \<Rightarrow> string \<Rightarrow> exn + jsonval" where
  "json_get (JDict kvs) key = Inr (case map_of kvs key of None \<Rightarrow> JNull | Some v \<Rightarrow> v)"
| "json_get v key =
     Inl (Raised AttributeError
            ([squote] @ json_type_name v @ [squote] @ '' object has no attribute ''
             @ [squote] @ ''get'' @ [squote]))"


subsection \<open>\<open>json.loads(text)\<close>\<close>

text \<open>
  The decoder of the standard library, as its scanner reads a \<open>str\<close>: whitespace is
  space, tab, newline and carriage return; the value is an object, an array, a string,
  a number or one of \<open>null\<close>, \<open>true\<close>, \<open>false\<close>, \<open>NaN\<close>, \<open>Infinity\<close>, \<open>-Infinity\<close>; text
  after the value is an error. Each function returns what is left of the text. The
  message of a \<open>JSONDecodeError\<close> is kept without its position. The interpreter's limit
  on the nesting depth is not modelled.
\<close>

definition decode_error :: "string \<Rightarrow> exn" where
  "decode_error msg = Raised JSONDecodeError msg"

definition expecting_delimiter :: "char \<Rightarrow> exn" where
  "expecting_delimiter c = decode_error (''Expecting '' @ [squote, c, squote] @ '' delimiter'')"

definition is_ws :: "char \<Rightarrow> bool" where
  "is_ws c = (c = CHR '' '' \<or> c = CHR 0x09 \<or> c = CHR 0x0A \<or> c = CHR 0x0D)"

definition skip_ws :: "string \<Rightarrow> string" where
  "skip_ws cs = dropWhile is_ws cs"

definition hex_val :: "char \<Rightarrow> nat option" where
  "hex_val c =
     (let n = (of_char c :: nat)
      in if 48 \<le> n \<and> n \<le> 57 then Some (n - 48)
         else if 65 \<le> n \<and> n \<le> 70 then Some (n - 55)
         else if 97 \<le> n \<and> n \<le> 102 then Some (n - 87)
         else None)"

definition hex4 :: "char \<Rightarrow> char \<Rightarrow> char \<Rightarrow> char \<Rightarrow> nat option" where
  "hex4 a b c d =
     (case (hex_val a, hex_val b, hex_val c, hex_val d) of
        (Some w, Some x, Some y, Some z) \<Rightarrow> Some (((w * 16 + x) * 16 + y) * 16 + z)
      | _ \<Rightarrow> None)"

definition unescape :: "char \<Rightarrow> char option" where
  "unescape e =
     (if e = dquote \<or> e = backslash \<or> e = CHR ''/'' then Some e
      else if e = CHR ''b'' then Some (CHR 0x08)
      else if e = CHR ''f'' then Some (CHR 0x0C)
      else if e = CHR ''n'' then Some (CHR 0x0A)
      else if e = CHR ''r'' then Some (CHR 0x0D)
      else if e = CHR ''t'' then Some (CHR 0x09)
      else None)"

definition push :: "char \<Rightarrow> exn + (string \<times> string) \<Rightarrow> exn + (string \<times> string)" where
  "push c r = (case r of Inl e \<Rightarrow> Inl e | Inr (s, rest) \<Rightarrow> Inr (c # s, rest))"

text \<open>
  The body of a string, read after its opening quote up to the closing one. An escape
  \<open>\uXXXX\<close> of a code point above 255 denotes a character that a \<open>string\<close> cannot hold:
  such a text is outside the embedding, which \<open>NotModelled\<close> records.
\<close>

fun scanstring :: "string \<Rightarrow> exn + (string \<times> string)" where
  "scanstring [] = Inl (decode_error ''Unterminated string starting at'')"
| "scanstring (c # cs) =
     (if c = dquote then Inr ([], cs)
      else if c = backslash then
        (case cs of
           [] \<Rightarrow> Inl (decode_error ''Unterminated string starting at'')
         | e # cs' \<Rightarrow>
             if e = CHR ''u'' then
               (case cs' of
                  h1 # h2 # h3 # h4 # cs'' \<Rightarrow>
                    (case hex4 h1 h2 h3 h4 of
                       None \<Rightarrow> Inl (decode_error (''Invalid '' @ backslash # ''uXXXX escape''))
                     | Some n \<Rightarrow>
                         if n < 256 then push (char_of n) (scanstring cs'')
                         else Inl (Raised NotModelled ''code point above 255''))
                | _ \<Rightarrow> Inl (decode_error (''Invalid '' @ backslash # ''uXXXX escape'')))
             else
               (case unescape e of
                  None \<Rightarrow> Inl (decode_error (''Invalid '' @ backslash # ''escape''))
                | Some ch \<Rightarrow> push ch (scanstring cs')))
      else if (of_char c :: nat) < 32 then Inl (decode_error ''Invalid control character at'')
      else push c (scanstring cs))"

text \<open>
  A number: \<open>-?(0|[1-9]\d*)(\.\d+)?([eE][-+]?\d+)?\<close>, matched at the start of the text. It
  is an \<open>int\<close> when it has neither fraction nor exponent, a \<open>float\<close> otherwise.
\<close>

definition match_number :: "string \<Rightarrow> (jsonval \<times> string) option" where
  "match_number cs =
     (let neg = (cs \<noteq> [] \<and> hd cs = CHR ''-'');
          cs1 = (if neg then tl cs else cs);
          ds = (if cs1 \<noteq> [] \<and> hd cs1 = CHR ''0'' then ''0'' else takeWhile isdigit cs1);
          cs2 = drop (length ds) cs1;
          frac = (if cs2 \<noteq> [] \<and> hd cs2 = CHR ''.'' then takeWhile isdigit (tl cs2) else []);
          cs3 = (if frac = [] then cs2 else drop (length frac) (tl cs2));
          has_e = (cs3 \<noteq> [] \<and> (hd cs3 = CHR ''e'' \<or> hd cs3 = CHR ''E''));
          cs4 = (if has_e then tl cs3 else cs3);
          eneg = (has_e \<and> cs4 \<noteq> [] \<and> hd cs4 = CHR ''-'');
          cs5 = (if has_e \<and> cs4 \<noteq> [] \<and> (hd cs4 = CHR ''-'' \<or> hd cs4 = CHR ''+'')
                 then tl cs4 else cs4);
          ex = (if has_e then takeWhile isdigit cs5 else []);
          cs6 = (if ex = [] then cs3 else drop (length ex) cs5);
          sign = (if neg then - 1 else 1 :: int)
      in if ds = [] then None
         else if frac = [] \<and> ex = [] then Some (JInt (sign * int (nat_of_digits ds)), cs6)
         else Some (JFloat (Dec (sign * int (nat_of_digits (ds @ frac)))
                                ((if eneg then - int (nat_of_digits ex) else int (nat_of_digits ex))
                                 - int (length frac))),
                    cs6))"

text \<open>The values that are neither string, object nor array, in the scanner's order.\<close>

definition scan_atom :: "string \<Rightarrow> exn + (jsonval \<times> string)" where
  "scan_atom s =
     (if take 4 s = ''null'' then Inr (JNull, drop 4 s)
      else if take 4 s = ''true'' then Inr (JBool True, drop 4 s)
      else if take 5 s = ''false'' then Inr (JBool False, drop 5 s)
      else case match_number s of
             Some r \<Rightarrow> Inr r
           | None \<Rightarrow>
               if take 3 s = ''NaN'' then Inr (JFloat NaN, drop 3 s)
               else if take 8 s = ''Infinity'' then Inr (JFloat Infinity, drop 8 s)
               else if take 9 s = ''-Infinity'' then Inr (JFloat Infinity, drop 9 s)
               else Inl (decode_error ''Expecting value''))"

text \<open>\<open>dict(pairs)\<close>: a later pair replaces the value of an equal key, in place.\<close>

definition dict_of :: "('k \<times> 'v) list \<Rightarrow> ('k \<times> 'v) list" where
  "dict_of pairs = foldl (\<lambda>d kv. AList.update (fst kv) (snd kv) d) [] pairs"

lemma length_skip_ws [termination_simp]: "length (skip_ws cs) \<le> length cs"
  by (simp add: skip_ws_def length_dropWhile_le)

lemma push_Inr: "push c r = Inr (s, rest) \<Longrightarrow> \<exists>s'. r = Inr (s', rest)"
  by (auto simp: push_def split: sum.splits)

lemma scanstring_shorter: "scanstring cs = Inr (s, rest) \<Longrightarrow> length rest < length cs"
proof (induction cs arbitrary: s rule: scanstring.induct)
  case 1
  then show ?case by simp
next
  case (2 c cs)
  show ?case
  proof (cases "c = dquote")
    case True
    with "2.prems" show ?thesis by simp
  next
    case nq: False
    show ?thesis
    proof (cases "c = backslash")
      case False
      with nq "2.prems" obtain s' where "scanstring cs = Inr (s', rest)"
        by (auto split: if_splits dest: push_Inr)
      with "2.IH"(3) [OF nq False] nq False "2.prems" show ?thesis
        by (fastforce split: if_splits)
    next
      case bs: True
      with nq "2.prems" obtain e cs' where cs: "cs = e # cs'"
        by (cases cs) auto
      show ?thesis
      proof (cases "e = CHR ''u''")
        case False
        with nq bs cs "2.prems" obtain ch s' where
          "unescape e = Some ch" "scanstring cs' = Inr (s', rest)"
          by (auto split: option.splits dest: push_Inr)
        with "2.IH"(2) [OF nq bs cs False] cs show ?thesis
          by fastforce
      next
        case u: True
        with nq bs cs "2.prems" obtain h1 h2 h3 h4 cs'' where cs': "cs' = h1 # h2 # h3 # h4 # cs''"
          by (auto split: list.splits)
        with nq bs cs u "2.prems" obtain n s' where
          n: "hex4 h1 h2 h3 h4 = Some n" "n < 256" "scanstring cs'' = Inr (s', rest)"
          by (auto split: option.splits if_splits dest: push_Inr)
        with "2.IH"(1) nq bs cs u cs' have "length rest < length cs''"
          by blast
        with cs cs' show ?thesis
          by simp
      qed
    qed
  qed
qed

text \<open>
  \<open>scan_once\<close> reads one value; \<open>array_items\<close> reads the elements of an array from the
  first one to the closing bracket; \<open>object_items\<close> reads the members of an object from
  the character after the opening quote of the first key to the closing brace. A loop
  goes on only when the value just read took some of the text, which every value does.
\<close>

function scan_once :: "string \<Rightarrow> exn + (jsonval \<times> string)"
  and array_items :: "string \<Rightarrow> exn + (jsonval list \<times> string)"
  and object_items :: "string \<Rightarrow> exn + ((string \<times> jsonval) list \<times> string)"
where
  "scan_once [] = Inl (decode_error ''Expecting value'')"
| "scan_once (c # cs) =
     (if c = dquote then
        (case scanstring cs of Inl e \<Rightarrow> Inl e | Inr (s, rest) \<Rightarrow> Inr (JStr s, rest))
      else if c = CHR ''{'' then
        (case skip_ws cs of
           [] \<Rightarrow> Inl (decode_error ''Expecting property name enclosed in double quotes'')
         | d # rest \<Rightarrow>
             if d = CHR ''}'' then Inr (JDict [], rest)
             else if d = dquote then
               (case object_items rest of
                  Inl e \<Rightarrow> Inl e
                | Inr (pairs, rest') \<Rightarrow> Inr (JDict (dict_of pairs), rest'))
             else Inl (decode_error ''Expecting property name enclosed in double quotes''))
      else if c = CHR ''['' then
        (case skip_ws cs of
           [] \<Rightarrow> Inl (decode_error ''Expecting value'')
         | d # rest \<Rightarrow>
             if d = CHR '']'' then Inr (JList [], rest)
             else
               (case array_items (d # rest) of
                  Inl e \<Rightarrow> Inl e
                | Inr (vs, rest') \<Rightarrow> Inr (JList vs, rest')))
      else scan_atom (c # cs))"
| "array_items cs =
     (case scan_once cs of
        Inl e \<Rightarrow> Inl e
      | Inr (v, r1) \<Rightarrow>
          (case skip_ws r1 of
             [] \<Rightarrow> Inl (expecting_delimiter CHR '','')
           | d # r2 \<Rightarrow>
               if d = CHR '']'' then Inr ([v], r2)
               else if d \<noteq> CHR '','' then Inl (expecting_delimiter CHR '','')
               else if \<not> length (skip_ws r2) < length cs then Inl (Raised NotModelled ''no progress'')
               else
                 (case array_items (skip_ws r2) of
                    Inl e \<Rightarrow> Inl e
                  | Inr (vs, r3) \<Rightarrow> Inr (v # vs, r3))))"
| "object_items cs =
     (case scanstring cs of
        Inl e \<Rightarrow> Inl e
      | Inr (key, r1) \<Rightarrow>
          (case skip_ws r1 of
             [] \<Rightarrow> Inl (expecting_delimiter CHR '':'')
           | d # r2 \<Rightarrow>
               if d \<noteq> CHR '':'' then Inl (expecting_delimiter CHR '':'')
               else
                 (case scan_once (skip_ws r2) of
                    Inl e \<Rightarrow> Inl e
                  | Inr (v, r3) \<Rightarrow>
                      (case skip_ws r3 of
                         [] \<Rightarrow> Inl (expecting_delimiter CHR '','')
                       | d' # r4 \<Rightarrow>
                           if d' = CHR ''}'' then Inr ([(key, v)], r4)
                           else if d' \<noteq> CHR '','' then Inl (expecting_delimiter CHR '','')
                           else
                             (case skip_ws r4 of
                                [] \<Rightarrow>
                                  Inl (decode_error
                                         ''Expecting property name enclosed in double quotes'')
                              | d'' # r5 \<Rightarrow>
                                  if d'' \<noteq> dquote then
                                    Inl (decode_error
                                           ''Expecting property name enclosed in double quotes'')
                                  else if \<not> length r5 < length cs then
                                    Inl (Raised NotModelled ''no progress'')
                                  else
                                    (case object_items r5 of
                                       Inl e \<Rightarrow> Inl e
                                     | Inr (pairs, r6) \<Rightarrow> Inr ((key, v) # pairs, r6)))))))"
  by pat_completeness auto


lemma skip_ws_Cons_shorter: "skip_ws cs = d # rest \<Longrightarrow> length rest < length cs"
  using length_skip_ws [of cs] by simp

lemma skip_ws_bound: "length r < n \<Longrightarrow> 2 * length (skip_ws r) < Suc (2 * n)"
  using length_skip_ws [of r] by simp

termination scan_once
  apply (relation "measure (\<lambda>x. case x of Inl cs \<Rightarrow> 2 * length cs
                                   | Inr (Inl cs) \<Rightarrow> 2 * length cs + 1
                                   | Inr (Inr cs) \<Rightarrow> 2 * length cs + 1)")
        apply (auto dest!: skip_ws_Cons_shorter scanstring_shorter intro: skip_ws_bound)
  done

declare scan_once.simps [simp del] array_items.simps [simp del] object_items.simps [simp del]

definition json_decode :: "string \<Rightarrow> exn + jsonval" where
  "json_decode s =
     (case scan_once (skip_ws s) of
        Inl e \<Rightarrow> Inl e
      | Inr (v, rest) \<Rightarrow> if skip_ws rest = [] then Inr v else Inl (decode_error ''Extra data''))"

text \<open>\<open>json.loads(obj)\<close>: an object that is no text is a \<open>TypeError\<close>.\<close>

fun json_loads :: "pyval \<Rightarrow> exn + jsonval" where
  "json_loads (PStr s) = json_decode s"
| "json_loads v =
     Inl (Raised TypeError (''the JSON object must be str, bytes or bytearray, not '' @ type_name v))"

subsection \<open>\<open>re.search(r"score: (\d+),?\s*justification: (.+)", text)\<close>\<close>

text \<open>
  The pattern is a sequence of literals and greedy repetitions of a character class.
  Each piece takes the text and a continuation for the rest of the pattern: a
  repetition tries its longest run first and gives characters back while the
  continuation fails, as the backtracking matcher does; \<open>re.search\<close> takes the first
  position of the text where the pattern matches. Over the code points 0 to 255
  \<open>\d\<close> is \<open>isdigit\<close>, \<open>\s\<close> is \<open>isspace\<close>, and the dot is every character but the newline.
\<close>

definition lit :: "string \<Rightarrow> (string \<Rightarrow> 'r option) \<Rightarrow> string \<Rightarrow> 'r option" where
  "lit p k cs = (if take (length p) cs = p then k (drop (length p) cs) else None)"

definition opt_lit :: "string \<Rightarrow> (string \<Rightarrow> 'r option) \<Rightarrow> string \<Rightarrow> 'r option" where
  "opt_lit p k cs =
     (case lit p k cs of Some r \<Rightarrow> Some r | None \<Rightarrow> k cs)"

text \<open>\<open>try_runs k cs n lo\<close>: the runs of length \<open>n\<close> down to \<open>lo\<close>, the longest first.\<close>

fun try_runs :: "(string \<Rightarrow> string \<Rightarrow> 'r option) \<Rightarrow> string \<Rightarrow> nat \<Rightarrow> nat \<Rightarrow> 'r option" where
  "try_runs k cs 0 lo = (if lo = 0 then k [] cs else None)"
| "try_runs k cs (Suc n) lo =
     (if Suc n < lo then None
      else case k (take (Suc n) cs) (drop (Suc n) cs) of
             Some r \<Rightarrow> Some r
           | None \<Rightarrow> try_runs k cs n lo)"

definition greedy ::
  "(char \<Rightarrow> bool) \<Rightarrow> nat \<Rightarrow> (string \<Rightarrow> string \<Rightarrow> 'r option) \<Rightarrow> string \<Rightarrow> 'r option" where
  "greedy cls lo k cs = try_runs k cs (length (takeWhile cls cs)) lo"

definition dot :: "char \<Rightarrow> bool" where
  "dot c = (c \<noteq> newline)"

text \<open>The pattern matched at the start of the text: the two groups.\<close>

definition score_pattern :: "string \<Rightarrow> (string \<times> string) option" where
  "score_pattern =
     lit ''score: ''
       (greedy isdigit 1 (\<lambda>g1.
          opt_lit '',''
            (greedy isspace 0 (\<lambda>_.
               lit ''justification: ''
                 (greedy dot 1 (\<lambda>g2 _. Some (g1, g2)))))))"

fun re_search :: "(string \<Rightarrow> 'r option) \<Rightarrow> string \<Rightarrow> 'r option" where
  "re_search p [] = p []"
| "re_search p (c # cs) = (case p (c # cs) of Some r \<Rightarrow> Some r | None \<Rightarrow> re_search p cs)"


section \<open>The response parser\<close>

text \<open>\<open>obj["text"]\<close>: subscription of an object by a \<open>str\<close> key.\<close>

fun getitem :: "pyval \<Rightarrow> string \<Rightarrow> exn + pyval" where
  "getitem (PDict kvs) key =
     (case map_of kvs key of None \<Rightarrow> Inl (Raised KeyError key) | Some v \<Rightarrow> Inr v)"
| "getitem (PList xs) key =
     Inl (Raised TypeError ''list indices must be integers or slices, not str'')"
| "getitem (PStr s) key =
     Inl (Raised TypeError (''string indices must be integers, not '' @ [squote] @ ''str'' @ [squote]))"
| "getitem v key =
     Inl (Raised TypeError ([squote] @ type_name v @ [squote] @ '' object is not subscriptable''))"

text \<open>
  The first candidate of a response that is a \<open>dict\<close> with a non-empty \<open>list\<close> under
  \<open>"candidates"\<close>: the guard of the first \<open>if\<close> of \<open>_extract_score_and_justification\<close> and the
  element \<open>output["candidates"][0]\<close>.
\<close>

fun first_candidate :: "pyval \<Rightarrow> pyval option" where
  "first_candidate (PDict kvs) =
     (case map_of kvs ''candidates'' of
        Some (PList (c # cs)) \<Rightarrow> Some c
      | _ \<Rightarrow> None)"
| "first_candidate v = None"

definition failed_to_extract :: "pyval \<Rightarrow> string" where
  "failed_to_extract output =
     ''Failed to extract score and justification. Raw output: '' @ py_str output"

text \<open>The body of the \<open>try\<close>: the decoded object, its score as an \<open>int\<close>, its justification.\<close>

definition parse_json :: "pyval \<Rightarrow> exn + (int \<times> jsonval)" where
  "parse_json text =
     (case json_loads text of
        Inl e \<Rightarrow> Inl e
      | Inr data \<Rightarrow>
          (case json_get data ''score'' of
             Inl e \<Rightarrow> Inl e
           | Inr sv \<Rightarrow>
               (case py_int sv of
                  Inl e \<Rightarrow> Inl e
                | Inr score \<Rightarrow>
                    (case json_get data ''justification'' of
                       Inl e \<Rightarrow> Inl e
                     | Inr justification \<Rightarrow> Inr (score, justification)))))"

text \<open>The handler of \<open>json.JSONDecodeError\<close>: the regular expression, on the same text.\<close>

definition parse_regex :: "pyval \<Rightarrow> pyval \<Rightarrow> exn + (int option \<times> jsonval)" where
  "parse_regex output text =
     (case text of
        PStr s \<Rightarrow>
          (case re_search score_pattern s of
             Some (g1, g2) \<Rightarrow>
               (case str_to_int g1 of
                  Inl e \<Rightarrow> Inl e
                | Inr score \<Rightarrow> Inr (Some score, JStr g2))
           | None \<Rightarrow> Inr (None, JStr (failed_to_extract output)))
      | _ \<Rightarrow>
          Inl (Raised TypeError
                 (''expected string or bytes-like object, got '' @ [squote] @ type_name text
                  @ [squote])))"

text \<open>
  \<open>_extract_score_and_justification(output)\<close>. The name \<open>text\<close> is bound only under the
  first \<open>if\<close>; where its guard fails, reading \<open>text\<close> in the second \<open>if\<close> raises
  \<open>UnboundLocalError\<close>. The result is the pair \<open>(score, justification)\<close>, each \<open>None\<close> or a
  value.
\<close>

type_synonym score_result = "int option \<times> string option"

definition extract_score_and_justification :: "pyval \<Rightarrow> exn + score_result" where
  "extract_score_and_justification output =
     (case first_candidate output of
        None \<Rightarrow>
          Inl (Raised UnboundLocalError
                 (''cannot access local variable '' @ [squote] @ ''text'' @ [squote]
                  @ '' where it is not associated with a value''))
      | Some c \<Rightarrow>
          (case getitem c ''text'' of
             Inl e \<Rightarrow> Inl e
           | Inr text \<Rightarrow>
               if truthy text then
                 (case (case parse_json text of
                          Inl e \<Rightarrow>
                            if class_of e = JSONDecodeError then parse_regex output text
                            else Inl e
                        | Inr (score, justification) \<Rightarrow> Inr (Some score, justification)) of
                    Inl e \<Rightarrow> Inl e
                  | Inr (Some score, JStr justification) \<Rightarrow> Inr (Some score, Some justification)
                  | Inr _ \<Rightarrow> Inr (None, Some (failed_to_extract output)))
               else Inr (None, None)))"

section \<open>The metric and its evaluation\<close>

text \<open>
  What \<open>make_genai_metric\<close> fixes for its \<open>eval_fn\<close>: the arguments \<open>name\<close>,
  \<open>grading_context_columns\<close>, \<open>aggregations\<close>, \<open>max_workers\<close> and \<open>judge_request_timeout\<close>,
  and the entries \<open>"model"\<close>, \<open>"parameters"\<close> and \<open>"eval_prompt"\<close> of the evaluation
  context. The prompt template belongs to a module outside the files at hand, so
  \<open>eval_prompt\<close> is the function that its \<open>format(input, output, grading_context_columns)\<close>
  computes.
\<close>

record metric =
  name :: string
  grading_context_columns :: "string list"
  aggregations :: "string list option"
  max_workers :: int
  judge_request_timeout :: int
  eval_model :: pyval
  eval_parameters :: "(string \<times> pyval) list"
  eval_prompt :: "pyval \<Rightarrow> pyval \<Rightarrow> string \<Rightarrow> string"

text \<open>
  The judge endpoint: \<open>model_utils.score_model_on_payload(eval_model, payload, timeout)\<close>
  belongs to a module outside the files at hand and reaches a service, so its answer is
  not a function of its arguments alone. \<open>judge indx\<close> is the outcome of the call that
  the task of row \<open>indx\<close> makes: a raw response or an exception.
\<close>

type_synonym payload = "(string \<times> pyval) list"
type_synonym judge = "nat \<Rightarrow> pyval \<Rightarrow> payload \<Rightarrow> int \<Rightarrow> exn + pyval"

text \<open>
  A grading context column is the sequence of its cells; \<open>eval_values\<close> maps the column
  names to the columns. Reading a cell past the end of a column raises, as the
  subscription of a \<open>list\<close> does.
\<close>

type_synonym eval_values = "(string \<times> pyval list) list"

fun args_dict_of :: "string list \<Rightarrow> eval_values \<Rightarrow> nat \<Rightarrow> (string \<times> pyval) list
    \<Rightarrow> exn + (string \<times> pyval) list" where
  "args_dict_of [] ev indx args_dict = Inr args_dict"
| "args_dict_of (arg # rest) ev indx args_dict =
     (case map_of ev arg of
        Some col \<Rightarrow>
          if indx < length col then args_dict_of rest ev indx (AList.update arg (col ! indx) args_dict)
          else Inl (Raised IndexError ''list index out of range'')
      | None \<Rightarrow>
          Inl (Raised (MlflowException INTERNAL_ERROR)
                 (arg @ '' does not exist in the eval function '' @ repr_str_list (map fst ev)
                  @ ''.'')))"

text \<open>\<open>_format_args_string(grading_context_columns, eval_values, indx)\<close>.\<close>

definition format_args_string :: "string list \<Rightarrow> eval_values \<Rightarrow> nat \<Rightarrow> exn + string" where
  "format_args_string columns ev indx =
     (case args_dict_of columns ev indx [] of
        Inl e \<Rightarrow> Inl e
      | Inr args_dict \<Rightarrow>
          Inr (''Additional information used by the model:'' @ [newline]
               @ join [newline]
                   (map (\<lambda>kv. ''key: '' @ fst kv @ [newline] @ ''value:'' @ [newline]
                               @ py_str (snd kv))
                      args_dict)))"

text \<open>The message of the exception that replaces a failure of \<open>_format_args_string\<close>.\<close>

definition malformed_message :: "metric \<Rightarrow> eval_values \<Rightarrow> exn \<Rightarrow> string" where
  "malformed_message cfg ev e =
     ''Values for grading_context_columns are malformed and cannot be formatted into a prompt for metric ''
     @ [squote] @ name cfg @ [squote] @ ''.'' @ [newline]
     @ ''Required columns: '' @ repr_str_list (grading_context_columns cfg) @ [newline]
     @ ''Values: '' @ py_repr (PDict (map (\<lambda>kv. (fst kv, PList (snd kv))) ev)) @ [newline]
     @ ''Error: '' @ exn_repr e @ [newline]
     @ ''Please check the following: '' @ [newline]
     @ ''- predictions and targets (if required) are provided correctly'' @ [newline]
     @ ''- grading_context_columns are mapped correctly using the evaluator_config parameter''
     @ [newline]
     @ ''- input and output data are formatted correctly.''"

text \<open>The error codes on which a failed judge call ends the run.\<close>

definition fatal :: "exn \<Rightarrow> bool" where
  "fatal e =
     (class_of e = MlflowException BAD_REQUEST \<or> class_of e = MlflowException UNAUTHENTICATED)"

text \<open>The payload \<open>{"prompt": ..., **eval_parameters}\<close> of one row.\<close>

definition payload_of :: "metric \<Rightarrow> pyval \<Rightarrow> pyval \<Rightarrow> string \<Rightarrow> payload" where
  "payload_of cfg input output arg_string =
     foldl (\<lambda>d kv. AList.update (fst kv) (snd kv) d)
       [(''prompt'', PStr (eval_prompt cfg input output arg_string))]
       (eval_parameters cfg)"

text \<open>
  \<open>score_model_on_one_payload\<close>, the task of one row. The first component of the result
  counts the calls to the judge that the task has made; the second is what the task
  raises or returns.
\<close>

definition score_model_on_one_payload ::
  "metric \<Rightarrow> judge \<Rightarrow> eval_values \<Rightarrow> nat \<Rightarrow> pyval \<Rightarrow> pyval \<Rightarrow> nat \<times> (exn + score_result)" where
  "score_model_on_one_payload cfg judge ev indx input output =
     (case format_args_string (grading_context_columns cfg) ev indx of
        Inl e \<Rightarrow> (0, Inl (Raised (MlflowException INTERNAL_ERROR) (malformed_message cfg ev e)))
      | Inr arg_string \<Rightarrow>
          (1,
           case (case judge indx (eval_model cfg) (payload_of cfg input output arg_string)
                        (judge_request_timeout cfg) of
                   Inl e \<Rightarrow> Inl e
                 | Inr raw_result \<Rightarrow> extract_score_and_justification raw_result) of
             Inl e \<Rightarrow>
               if fatal e then Inl (Raised (MlflowException INTERNAL_ERROR) (exn_str e))
               else Inr (None, Some (''Failed to score model on payload. Error: '' @ exn_str e))
           | Inr r \<Rightarrow> Inr r))"


subsection \<open>Aggregation\<close>

text \<open>
  The statistics of \<open>numpy\<close> over the scores that are not \<open>None\<close>. A result is \<open>None\<close>
  (\<open>NoValue\<close>), \<open>nan\<close> (\<open>NotANumber\<close>) or a number. Numbers are the exact rationals: the
  rounding of \<open>numpy\<close>'s binary64 arithmetic is not modelled. On an empty array \<open>np.min\<close>
  and \<open>np.max\<close> raise \<open>ValueError\<close>, while \<open>np.mean\<close>, \<open>np.median\<close> and \<open>np.var\<close> warn and
  return \<open>nan\<close>.
\<close>

datatype npval = NoValue | NotANumber | Number rat

definition np_min :: "int list \<Rightarrow> exn + npval" where
  "np_min x =
     (if x = [] then
        Inl (Raised ValueError
               ''zero-size array to reduction operation minimum which has no identity'')
      else Inr (Number (of_int (fold min (tl x) (hd x)))))"

definition np_max :: "int list \<Rightarrow> exn + npval" where
  "np_max x =
     (if x = [] then
        Inl (Raised ValueError
               ''zero-size array to reduction operation maximum which has no identity'')
      else Inr (Number (of_int (fold max (tl x) (hd x)))))"

definition mean :: "int list \<Rightarrow> rat" where
  "mean x = of_int (sum_list x) / of_nat (length x)"

definition np_mean :: "int list \<Rightarrow> exn + npval" where
  "np_mean x = (if x = [] then Inr NotANumber else Inr (Number (mean x)))"

definition np_median :: "int list \<Rightarrow> exn + npval" where
  "np_median x =
     (let s = sort x; n = length x
      in if x = [] then Inr NotANumber
         else if odd n then Inr (Number (of_int (s ! (n div 2))))
         else Inr (Number ((of_int (s ! (n div 2 - 1)) + of_int (s ! (n div 2))) / 2)))"

definition np_var :: "int list \<Rightarrow> exn + npval" where
  "np_var x =
     (if x = [] then Inr NotANumber
      else Inr (Number (sum_list (map (\<lambda>v. (of_int v - mean x) ^ 2) x) / of_nat (length x))))"

text \<open>
  \<open>np.percentile(x, 90)\<close> of a non-empty array, by linear interpolation between the
  two order statistics around the position \<open>0.9 * (n - 1)\<close>.
\<close>

definition np_percentile_90 :: "int list \<Rightarrow> rat" where
  "np_percentile_90 x =
     (let s = sort x; n = length x;
          lo = (9 * (n - 1)) div 10;
          hi = min (lo + 1) (n - 1)
      in of_int (s ! lo) + (of_nat ((9 * (n - 1)) mod 10) / 10) * (of_int (s ! hi) - of_int (s ! lo)))"

definition p90 :: "int list \<Rightarrow> exn + npval" where
  "p90 x = (if x \<noteq> [] then Inr (Number (np_percentile_90 x)) else Inr NoValue)"

definition options :: "(string \<times> (int list \<Rightarrow> exn + npval)) list" where
  "options =
     [(''min'', np_min), (''max'', np_max), (''mean'', np_mean), (''median'', np_median),
      (''variance'', np_var), (''p90'', p90)]"

definition aggregate_function :: "string \<Rightarrow> int list \<Rightarrow> exn + npval" where
  "aggregate_function aggregate_option scores =
     (case map_of options aggregate_option of
        None \<Rightarrow>
          Inl (Raised (MlflowException INVALID_PARAMETER_VALUE)
                 (''Invalid aggregate option '' @ aggregate_option @ ''.''))
      | Some f \<Rightarrow> f scores)"

text \<open>The dict comprehension over \<open>aggregations\<close>: one option after the other.\<close>

fun aggregate_results_of ::
  "string list \<Rightarrow> int list \<Rightarrow> (string \<times> npval) list \<Rightarrow> exn + (string \<times> npval) list" where
  "aggregate_results_of [] scores acc = Inr acc"
| "aggregate_results_of (opt # rest) scores acc =
     (case aggregate_function opt scores of
        Inl e \<Rightarrow> Inl e
      | Inr v \<Rightarrow> aggregate_results_of rest scores (AList.update opt v acc))"

subsection \<open>\<open>eval_fn\<close>\<close>

record MetricValue =
  scores :: "int option list"
  justifications :: "string option list"
  aggregate_results :: "(string \<times> npval) list"

text \<open>
  The loop over \<open>as_completed(futures, timeout)\<close>. The tasks run concurrently and the
  loop meets their futures in the order of their completion: \<open>completion\<close> lists the
  indices of the futures that complete within the waiting time, in that order. The
  result of a future is raised where its task raised; otherwise it is written at the
  index of its row.
\<close>

fun collect :: "(exn + score_result) list \<Rightarrow> nat list
    \<Rightarrow> int option list \<times> string option list \<Rightarrow> exn + (int option list \<times> string option list)" where
  "collect results [] acc = Inr acc"
| "collect results (indx # rest) acc =
     (case results ! indx of
        Inl e \<Rightarrow> Inl e
      | Inr (score, justification) \<Rightarrow>
          collect results rest ((fst acc)[indx := score], (snd acc)[indx := justification]))"

text \<open>
  A completion order of \<open>n\<close> futures names each future at most once; it is complete when
  it names them all.
\<close>

definition schedule :: "nat \<Rightarrow> nat list \<Rightarrow> bool" where
  "schedule n completion = (distinct completion \<and> list_all (\<lambda>i. i < n) completion)"

definition complete_schedule :: "nat \<Rightarrow> nat list \<Rightarrow> bool" where
  "complete_schedule n completion = (schedule n completion \<and> length completion = n)"

text \<open>
  The futures that the dict comprehension submits: the task of each row of
  \<open>enumerate(zip(inputs, outputs))\<close>, which ends with the shorter of the two sequences.
\<close>

definition submit_all ::
  "metric \<Rightarrow> judge \<Rightarrow> eval_values \<Rightarrow> pyval list \<Rightarrow> pyval list \<Rightarrow> (nat \<times> (exn + score_result)) list" where
  "submit_all cfg judge ev inputs outputs =
     map (\<lambda>(indx, input, output). score_model_on_one_payload cfg judge ev indx input output)
       (enumerate 0 (zip inputs outputs))"

text \<open>
  \<open>eval_fn(predictions, metrics, inputs, *args)\<close>; the argument \<open>metrics\<close> is not used.
  The first component of the result counts the calls to the judge. The pool is left
  through its context manager, which waits for every submitted task, so every task runs
  whether or not the loop over the completed futures ends early. When the waiting time
  ends with futures unfinished, \<open>as_completed\<close> raises \<open>TimeoutError\<close> after the finished
  ones.
\<close>

definition eval_fn ::
  "metric \<Rightarrow> judge \<Rightarrow> nat list \<Rightarrow> pyval list \<Rightarrow> pyval list \<Rightarrow> pyval list list
     \<Rightarrow> nat \<times> (exn + MetricValue)" where
  "eval_fn cfg judge completion predictions inputs args =
     (let eval_values = dict_of (zip (grading_context_columns cfg) args);
          outputs = predictions
      in case eval_model cfg of
           PStr uri \<Rightarrow>
             if max_workers cfg \<le> 0 then
               (0, Inl (Raised ValueError ''max_workers must be greater than 0''))
             else
               let tasks = submit_all cfg judge eval_values inputs outputs
               in (sum_list (map fst tasks),
                   case collect (map snd tasks) completion
                          (replicate (length inputs) None, replicate (length inputs) None) of
                     Inl e \<Rightarrow> Inl e
                   | Inr (ss, js) \<Rightarrow>
                       if length completion < length tasks then
                         Inl (Raised TimeoutError
                                (show_nat (length tasks - length completion) @ '' (of ''
                                 @ show_nat (length tasks) @ '') futures unfinished''))
                       else
                         (case (case aggregations cfg of
                                  None \<Rightarrow> Inr []
                                | Some aggs \<Rightarrow>
                                    aggregate_results_of aggs
                                      (map the (filter (\<lambda>score. score \<noteq> None) ss)) []) of
                            Inl e \<Rightarrow> Inl e
                          | Inr results \<Rightarrow>
                              Inr \<lparr>scores = ss, justifications = js, aggregate_results = results\<rparr>))
         | _ \<Rightarrow>
             (0,
              Inl (Raised (MlflowException INVALID_PARAMETER_VALUE)
                     (''The model argument must be a string URI referring to an openai model (openai:/gpt-3.5-turbo) or  gateway (gateway:/my-route), passed ''
                      @ py_str (eval_model cfg) @ '' instead''))))"


text \<open>The exceptions of the JSON decoder.\<close>

definition decoding :: "exn \<Rightarrow> bool" where
  "decoding e = (class_of e = JSONDecodeError \<or> class_of e = NotModelled)"

text \<open>
  What the task of row \<open>i\<close> raises or returns in the call
  \<open>eval_fn(predictions, metrics, inputs, *args)\<close>.
\<close>

definition row_task ::
  "metric \<Rightarrow> judge \<Rightarrow> pyval list list \<Rightarrow> pyval list \<Rightarrow> pyval list \<Rightarrow> nat \<Rightarrow> exn + score_result" where
  "row_task cfg judge args inputs predictions i =
     snd (score_model_on_one_payload cfg judge
            (dict_of (zip (grading_context_columns cfg) args)) i (inputs ! i) (predictions ! i))"

section \<open>Example metrics and judges\<close>

text \<open>
  A metric with no grading context column, and judges that answer a row with a given
  candidate text or fail on it, used to run the definitions on concrete batches.
\<close>

definition candidates_response :: "string \<Rightarrow> pyval" where
  "candidates_response t = PDict [(''candidates'', PList [PDict [(''text'', PStr t)]])]"

definition example_metric :: metric where
  "example_metric =
     \<lparr>name = ''answer_correctness'', grading_context_columns = [],
      aggregations = Some [''mean'', ''variance'', ''p90''], max_workers = 10,
      judge_request_timeout = 60, eval_model = PStr ''openai:/gpt-4'',
      eval_parameters = [(''temperature'', PInt 0)],
      eval_prompt = (\<lambda>input output arg_string. py_str input @ py_str output @ arg_string)\<rparr>"

definition judge_answering :: "string \<Rightarrow> judge" where
  "judge_answering t indx model payload timeout = Inr (candidates_response t)"

definition good_judge :: judge where
  \<open>good_judge = judge_answering ''{"score": 4, "justification": "good"}''\<close>

text \<open>The judge that fails with \<open>e\<close> on the call of row \<open>k\<close> and answers the other rows.\<close>

definition judge_raising :: "nat \<Rightarrow> exn \<Rightarrow> judge" where
  "judge_raising k e indx model payload timeout =
     (if indx = k then Inl e else good_judge indx model payload timeout)"


text \<open>The example metric with a given list of statistics.\<close>

definition metric_aggregating :: "string list \<Rightarrow> metric" where
  "metric_aggregating aggs = example_metric\<lparr>aggregations := Some aggs\<rparr>"

definition rate_limited :: exn where
  "rate_limited = Raised (OtherException ''HTTPError'') ''429 Too Many Requests''"


text \<open>The judge that gives row \<open>indx\<close> the score \<open>indx + 1\<close>.\<close>

definition numbering_judge :: judge where
  \<open>numbering_judge indx model payload timeout =
     Inr (candidates_response
            (''{"score": '' @ show_nat (indx + 1) @ '', "justification": "row '' @ show_nat indx
             @ ''"}''))\<close>

section \<open>Lemmas on the loop over the completed futures and on \<open>eval_fn\<close>\<close>

lemma collect_lengths:
  "collect results c acc = Inr acc' \<Longrightarrow>
     length (fst acc') = length (fst acc) \<and> length (snd acc') = length (snd acc)"
proof (induction c arbitrary: acc)
  case Nil
  then show ?case by simp
next
  case (Cons j c)
  then show ?case
    by (fastforce split: sum.splits prod.splits)
qed

lemma collect_untouched:
  "collect results c acc = Inr acc' \<Longrightarrow> i \<notin> set c \<Longrightarrow>
     fst acc' ! i = fst acc ! i \<and> snd acc' ! i = snd acc ! i"
proof (induction c arbitrary: acc)
  case Nil
  then show ?case by simp
next
  case (Cons j c)
  then show ?case
    by (fastforce split: sum.splits prod.splits)
qed

lemma collect_written:
  "collect results c acc = Inr acc' \<Longrightarrow> distinct c \<Longrightarrow> i \<in> set c \<Longrightarrow>
   i < length (fst acc) \<Longrightarrow> i < length (snd acc) \<Longrightarrow>
     results ! i = Inr (fst acc' ! i, snd acc' ! i)"
proof (induction c arbitrary: acc)
  case Nil
  then show ?case by simp
next
  case (Cons j c)
  from Cons.prems(1) obtain s t where
    r: "results ! j = Inr (s, t)" and
    rest: "collect results c ((fst acc)[j := s], (snd acc)[j := t]) = Inr acc'"
    by (auto split: sum.splits prod.splits)
  show ?case
  proof (cases "i = j")
    case True
    with Cons.prems(2) have "i \<notin> set c" by simp
    from collect_untouched [OF rest this] True Cons.prems(4,5) r show ?thesis
      by simp
  next
    case False
    with Cons.prems have "i \<in> set c" "distinct c" by simp_all
    from Cons.IH [OF rest this(2) this(1)] Cons.prems(4,5) show ?thesis
      by simp
  qed
qed

lemma collect_raises:
  "i \<in> set c \<Longrightarrow> results ! i = Inl e \<Longrightarrow> \<exists>e'. collect results c acc = Inl e'"
proof (induction c arbitrary: acc)
  case Nil
  then show ?case by simp
next
  case (Cons j c)
  then show ?case
    by (cases "results ! j") (auto split: prod.splits)
qed

lemma collect_raised_by:
  "collect results c acc = Inl e \<Longrightarrow> \<exists>i. i \<in> set c \<and> results ! i = Inl e"
proof (induction c arbitrary: acc)
  case Nil
  then show ?case by simp
next
  case (Cons j c)
  then show ?case
    by (cases "results ! j") (fastforce split: prod.splits)+
qed

lemma collect_returns:
  "(\<And>i. i \<in> set c \<Longrightarrow> \<exists>r. results ! i = Inr r) \<Longrightarrow> \<exists>acc'. collect results c acc = Inr acc'"
proof (induction c arbitrary: acc)
  case Nil
  then show ?case by simp
next
  case (Cons j c)
  from Cons.prems [of j] obtain s t where "results ! j = Inr (s, t)" by auto
  moreover from Cons.IH Cons.prems
  have "\<exists>acc'. collect results c ((fst acc)[j := s], (snd acc)[j := t]) = Inr acc'"
    by simp
  ultimately show ?case by simp
qed

lemma schedule_all:
  assumes "schedule n c" and "n \<le> length c"
  shows "set c = {..<n}" and "length c = n"
proof -
  from assms(1) have d: "distinct c" and sub: "set c \<subseteq> {..<n}"
    by (auto simp: schedule_def list_all_iff)
  from d have "card (set c) = length c" by (rule distinct_card)
  moreover from sub have "card (set c) \<le> n"
    using card_mono [of "{..<n}" "set c"] by simp
  ultimately have len: "length c = n" using assms(2) by simp
  with \<open>card (set c) = length c\<close> have "card (set c) = card {..<n}" by simp
  with sub show "set c = {..<n}" by (simp add: card_subset_eq)
  from len show "length c = n" .
qed

lemma length_submit_all:
  "length (submit_all cfg judge ev inputs outputs) = min (length inputs) (length outputs)"
  by (simp add: submit_all_def)

lemma nth_submit_all:
  "i < length inputs \<Longrightarrow> i < length outputs \<Longrightarrow>
     submit_all cfg judge ev inputs outputs ! i
       = score_model_on_one_payload cfg judge ev i (inputs ! i) (outputs ! i)"
  by (simp add: submit_all_def nth_enumerate_eq)


lemma eval_fn_run:
  assumes "eval_model cfg = PStr uri" and "0 < max_workers cfg"
  shows "eval_fn cfg judge c predictions inputs args =
     (let tasks = submit_all cfg judge (dict_of (zip (grading_context_columns cfg) args))
                    inputs predictions
      in (sum_list (map fst tasks),
          case collect (map snd tasks) c
                 (replicate (length inputs) None, replicate (length inputs) None) of
            Inl e \<Rightarrow> Inl e
          | Inr (ss, js) \<Rightarrow>
              if length c < length tasks then
                Inl (Raised TimeoutError
                       (show_nat (length tasks - length c) @ '' (of ''
                        @ show_nat (length tasks) @ '') futures unfinished''))
              else
                (case (case aggregations cfg of
                         None \<Rightarrow> Inr []
                       | Some aggs \<Rightarrow>
                           aggregate_results_of aggs
                             (map the (filter (\<lambda>score. score \<noteq> None) ss)) []) of
                   Inl e \<Rightarrow> Inl e
                 | Inr results \<Rightarrow>
                     Inr \<lparr>scores = ss, justifications = js, aggregate_results = results\<rparr>)))"
  using assms by (simp add: eval_fn_def Let_def)

lemma eval_fn_returns:
  assumes "snd (eval_fn cfg judge c predictions inputs args) = Inr mv"
  shows "\<exists>uri. eval_model cfg = PStr uri"
    and "0 < max_workers cfg"
    and "collect (map snd (submit_all cfg judge (dict_of (zip (grading_context_columns cfg) args))
                             inputs predictions)) c
           (replicate (length inputs) None, replicate (length inputs) None)
         = Inr (scores mv, justifications mv)"
    and "min (length inputs) (length predictions) \<le> length c"
proof -
  show m: "\<exists>uri. eval_model cfg = PStr uri"
    using assms by (cases "eval_model cfg") (simp_all add: eval_fn_def)
  show w: "0 < max_workers cfg"
    using assms m by (auto simp: eval_fn_def split: if_splits)
  from m obtain uri where u: "eval_model cfg = PStr uri" by blast
  note run = assms [unfolded eval_fn_run [OF u w]]
  from run show "collect (map snd (submit_all cfg judge (dict_of (zip (grading_context_columns cfg) args))
                             inputs predictions)) c
           (replicate (length inputs) None, replicate (length inputs) None)
         = Inr (scores mv, justifications mv)"
    by (auto simp: Let_def split: sum.splits prod.splits if_splits)
  from run show "min (length inputs) (length predictions) \<le> length c"
    by (auto simp: Let_def length_submit_all split: sum.splits prod.splits if_splits)
qed


lemma collect_order_free:
  assumes c: "collect results c (ss0, js0) = Inr (ss, js)"
    and same: "set c' = set c" and d: "distinct c" and d': "distinct c'"
    and bound: "\<And>i. i \<in> set c \<Longrightarrow> i < length ss0 \<and> i < length js0"
  shows "collect results c' (ss0, js0) = Inr (ss, js)"
proof -
  have ok: "\<exists>r. results ! i = Inr r" if "i \<in> set c'" for i
  proof (cases "results ! i")
    case (Inl e)
    from that same have "i \<in> set c" by simp
    from collect_raises [OF this Inl, of "(ss0, js0)"] c show ?thesis by simp
  next
    case (Inr r)
    then show ?thesis by blast
  qed
  from collect_returns [of c' results "(ss0, js0)"] ok
  obtain ss' js' where c': "collect results c' (ss0, js0) = Inr (ss', js')"
    by (metis surj_pair)
  from collect_lengths [OF c] have len: "length ss = length ss0" "length js = length js0"
    by simp_all
  from collect_lengths [OF c'] have len': "length ss' = length ss0" "length js' = length js0"
    by simp_all
  have pt: "ss' ! i = ss ! i \<and> js' ! i = js ! i" for i
  proof (cases "i \<in> set c")
    case True
    with bound have b: "i < length ss0" "i < length js0" by simp_all
    from collect_written [OF c d True] b have "results ! i = Inr (ss ! i, js ! i)" by simp
    moreover from collect_written [OF c' d'] True same b
    have "results ! i = Inr (ss' ! i, js' ! i)" by simp
    ultimately show ?thesis by simp
  next
    case False
    from collect_untouched [OF c False] collect_untouched [OF c'] False same
    show ?thesis by simp
  qed
  from len len' pt have "ss' = ss" "js' = js"
    by (simp_all add: nth_equalityI)
  with c' show ?thesis by simp
qed




lemma aggregate_function_total:
  "opt \<in> {''mean'', ''median'', ''variance'', ''p90''} \<Longrightarrow> \<exists>v. aggregate_function opt xs = Inr v"
  by (auto simp: aggregate_function_def options_def np_mean_def np_median_def np_var_def
        p90_def Let_def)


lemma eval_fn_scoring_returns:
  assumes u: "eval_model cfg = PStr uri" and w: "0 < max_workers cfg"
    and sc: "complete_schedule (min (length inputs) (length predictions)) c"
    and rows: "\<And>j. j < min (length inputs) (length predictions) \<Longrightarrow>
                 \<exists>r. row_task cfg judge args inputs predictions j = Inr r"
  shows "\<exists>ss js. collect (map snd (submit_all cfg judge
                 (dict_of (zip (grading_context_columns cfg) args)) inputs predictions)) c
               (replicate (length inputs) None, replicate (length inputs) None)
             = Inr (ss, js)"
proof -
  let ?tasks = "submit_all cfg judge (dict_of (zip (grading_context_columns cfg) args))
                  inputs predictions"
  have "\<exists>r. map snd ?tasks ! j = Inr r" if "j \<in> set c" for j
  proof -
    from that sc have "j < min (length inputs) (length predictions)"
      by (auto simp: complete_schedule_def schedule_def list_all_iff)
    with rows [OF this] show ?thesis
      by (simp add: row_task_def length_submit_all nth_submit_all)
  qed
  from collect_returns [of c "map snd ?tasks", OF this] show ?thesis
    by (metis surj_pair)
qed

section \<open>Ordering of the results\<close>

text \<open>
  C1. For every batch and every order in which the futures of its rows complete within
  the waiting time, a \<open>MetricValue\<close> that \<open>eval_fn\<close> returns has one score and one
  justification per input row, and the entries at the index of a scored row are what the
  task of that row returned; every other complete order gives the same result, judge
  calls included.
\<close>

theorem scores_follow_rows_for_every_completion_order:
  assumes sched: "complete_schedule (min (length inputs) (length predictions)) c"
    and ret: "snd (eval_fn cfg judge c predictions inputs args) = Inr mv"
  shows "length (scores mv) = length inputs
       \<and> length (justifications mv) = length inputs
       \<and> (\<forall>i. i < min (length inputs) (length predictions) \<longrightarrow>
             row_task cfg judge args inputs predictions i
               = Inr (scores mv ! i, justifications mv ! i))
       \<and> (\<forall>c'. complete_schedule (min (length inputs) (length predictions)) c' \<longrightarrow>
             eval_fn cfg judge c' predictions inputs args
               = eval_fn cfg judge c predictions inputs args)"
proof -
  let ?n = "min (length inputs) (length predictions)"
  let ?ev = "dict_of (zip (grading_context_columns cfg) args)"
  let ?tasks = "submit_all cfg judge ?ev inputs predictions"
  let ?init = "(replicate (length inputs) None :: int option list,
                replicate (length inputs) None :: string option list)"
  from eval_fn_returns [OF ret] obtain uri where
    u: "eval_model cfg = PStr uri" and w: "0 < max_workers cfg" and
    col: "collect (map snd ?tasks) c ?init = Inr (scores mv, justifications mv)"
    by blast
  from sched have sc: "schedule ?n c" and lc: "length c = ?n"
    by (simp_all add: complete_schedule_def)
  then have dc: "distinct c" and setc: "set c = {..<?n}"
    using schedule_all(1) [of ?n c] by (simp_all add: schedule_def)
  from collect_lengths [OF col] have len:
    "length (scores mv) = length inputs" "length (justifications mv) = length inputs"
    by simp_all
  have rows: "row_task cfg judge args inputs predictions i
                = Inr (scores mv ! i, justifications mv ! i)" if "i < ?n" for i
  proof -
    from that setc have "i \<in> set c" by simp
    from collect_written [OF col dc this] that
    have "map snd ?tasks ! i = Inr (scores mv ! i, justifications mv ! i)" by simp
    with that show ?thesis
      by (simp add: row_task_def length_submit_all nth_submit_all)
  qed
  have order: "eval_fn cfg judge c' predictions inputs args
                 = eval_fn cfg judge c predictions inputs args" if "complete_schedule ?n c'" for c'
  proof -
    from that have sc': "schedule ?n c'" and lc': "length c' = ?n"
      by (simp_all add: complete_schedule_def)
    then have dc': "distinct c'" and setc': "set c' = {..<?n}"
      using schedule_all(1) [of ?n c'] by (simp_all add: schedule_def)
    have "collect (map snd ?tasks) c' ?init = Inr (scores mv, justifications mv)"
      by (rule collect_order_free [OF col _ dc dc']) (simp_all add: setc setc')
    with col lc lc' show ?thesis
      by (simp add: eval_fn_run [OF u w] Let_def)
  qed
  from len rows order show ?thesis by blast
qed

theorem scores_follow_rows_witness:
  "complete_schedule 3 [2, 0, 1]
   \<and> snd (eval_fn example_metric numbering_judge [2, 0, 1]
             [PStr ''a'', PStr ''b'', PStr ''c''] [PStr ''p'', PStr ''q'', PStr ''r''] [])
       = Inr \<lparr>scores = [Some 1, Some 2, Some 3],
              justifications = [Some ''row 0'', Some ''row 1'', Some ''row 2''],
              aggregate_results =
                [(''mean'', Number 2), (''variance'', Number (2 / 3)), (''p90'', Number (14 / 5))]\<rparr>
   \<and> row_task example_metric numbering_judge []
         [PStr ''p'', PStr ''q'', PStr ''r''] [PStr ''a'', PStr ''b'', PStr ''c''] 2
       = Inr (Some 3, Some ''row 2'')
   \<and> eval_fn example_metric numbering_judge [0, 1, 2]
         [PStr ''a'', PStr ''b'', PStr ''c''] [PStr ''p'', PStr ''q'', PStr ''r''] []
       = eval_fn example_metric numbering_judge [2, 0, 1]
           [PStr ''a'', PStr ''b'', PStr ''c''] [PStr ''p'', PStr ''q'', PStr ''r''] []"
proof -
  let ?P = "[PStr ''a'', PStr ''b'', PStr ''c'']"
  let ?I = "[PStr ''p'', PStr ''q'', PStr ''r'']"
  let ?mv = "\<lparr>scores = [Some 1, Some 2, Some 3],
              justifications = [Some ''row 0'', Some ''row 1'', Some ''row 2''],
              aggregate_results =
                [(''mean'', Number 2), (''variance'', Number (2 / 3)), (''p90'', Number (14 / 5))]\<rparr>"
  have s: "complete_schedule 3 [2, 0, 1]" and s': "complete_schedule 3 [0, 1, 2]"
    by (simp_all add: complete_schedule_def schedule_def)
  have r: "snd (eval_fn example_metric numbering_judge [2, 0, 1] ?P ?I []) = Inr ?mv"
    by code_simp
  have h: "complete_schedule (min (length ?I) (length ?P)) [2, 0, 1]"
    by (simp add: complete_schedule_def schedule_def)
  note t = scores_follow_rows_for_every_completion_order [OF h r]
  have h': "complete_schedule (min (length ?I) (length ?P)) [0, 1, 2]"
    by (simp add: complete_schedule_def schedule_def)
  have two: "2 < min (length ?I) (length ?P)" by simp
  from t two have "row_task example_metric numbering_judge [] ?I ?P 2
      = Inr (scores ?mv ! 2, justifications ?mv ! 2)"
    by blast
  then have "row_task example_metric numbering_judge [] ?I ?P 2 = Inr (Some 3, Some ''row 2'')"
    by simp
  moreover from t h' have "eval_fn example_metric numbering_judge [0, 1, 2] ?P ?I []
      = eval_fn example_metric numbering_judge [2, 0, 1] ?P ?I []"
    by blast
  ultimately show ?thesis using s r by simp
qed

section \<open>The exceptions of the parser\<close>




lemma decode_error_decoding [simp]: "decoding (decode_error m)" "decoding (expecting_delimiter c)"
  by (simp_all add: decoding_def decode_error_def expecting_delimiter_def)

lemma not_modelled_decoding [simp]: "decoding (Raised NotModelled m)"
  by (simp add: decoding_def)











section \<open>Failures inside a row task\<close>






section \<open>Missing grading context columns\<close>











section \<open>Unknown aggregations\<close>

lemma options_unknown:
  "map_of options opt = None \<longleftrightarrow>
     opt \<notin> {''min'', ''max'', ''mean'', ''median'', ''variance'', ''p90''}"
  by (auto simp: options_def)

lemma aggregate_function_unknown:
  "opt \<notin> {''min'', ''max'', ''mean'', ''median'', ''variance'', ''p90''} \<Longrightarrow>
     aggregate_function opt xs
       = Inl (Raised (MlflowException INVALID_PARAMETER_VALUE)
                (''Invalid aggregate option '' @ opt @ ''.''))"
  using options_unknown [of opt] by (simp add: aggregate_function_def)

lemma aggregate_results_of_unknown:
  "bad \<in> set aggs \<Longrightarrow>
   bad \<notin> {''min'', ''max'', ''mean'', ''median'', ''variance'', ''p90''} \<Longrightarrow>
     \<exists>e. aggregate_results_of aggs xs acc = Inl e"
proof (induction aggs arbitrary: acc)
  case Nil
  then show ?case by simp
next
  case (Cons a aggs)
  show ?case
  proof (cases "aggregate_function a xs")
    case (Inl e)
    then show ?thesis by simp
  next
    case (Inr v)
    with Cons.prems aggregate_function_unknown [of bad xs] have "bad \<in> set aggs"
      by auto
    from Cons.IH [OF this Cons.prems(2)] Inr show ?thesis by simp
  qed
qed

lemma aggregate_results_of_first_unknown:
  "set pre \<subseteq> {''mean'', ''median'', ''variance'', ''p90''} \<Longrightarrow>
   bad \<notin> {''min'', ''max'', ''mean'', ''median'', ''variance'', ''p90''} \<Longrightarrow>
     aggregate_results_of (pre @ bad # post) xs acc
       = Inl (Raised (MlflowException INVALID_PARAMETER_VALUE)
                (''Invalid aggregate option '' @ bad @ ''.''))"
proof (induction pre arbitrary: acc)
  case Nil
  then show ?case by (simp add: aggregate_function_unknown)
next
  case (Cons a pre)
  from Cons.prems(1) aggregate_function_total [of a xs] obtain v where
    "aggregate_function a xs = Inr v" by auto
  with Cons show ?case by simp
qed

lemma task_returning_calls_judge:
  "score_model_on_one_payload cfg judge ev indx input output = (k, Inr r) \<Longrightarrow> k = 1"
  by (auto simp: score_model_on_one_payload_def split: sum.splits)

lemma calls_when_all_return:
  assumes "\<And>j. j < min (length inputs) (length predictions) \<Longrightarrow>
             \<exists>r. row_task cfg judge args inputs predictions j = Inr r"
  shows "sum_list (map fst (submit_all cfg judge
            (dict_of (zip (grading_context_columns cfg) args)) inputs predictions))
         = min (length inputs) (length predictions)"
proof -
  let ?tasks = "submit_all cfg judge (dict_of (zip (grading_context_columns cfg) args))
                  inputs predictions"
  have "fst (?tasks ! j) = 1" if "j < length ?tasks" for j
  proof -
    from that have j: "j < min (length inputs) (length predictions)"
      by (simp add: length_submit_all)
    from assms [OF j] obtain r where "row_task cfg judge args inputs predictions j = Inr r"
      by blast
    with j have "snd (?tasks ! j) = Inr r"
      by (simp add: row_task_def nth_submit_all)
    then have "?tasks ! j = (fst (?tasks ! j), Inr r)"
      by (metis prod.collapse)
    with j task_returning_calls_judge [of cfg judge _ j "inputs ! j" "predictions ! j" _ r]
    show ?thesis by (simp add: nth_submit_all)
  qed
  then have "map fst ?tasks = replicate (length ?tasks) 1"
    by (simp add: list_eq_iff_nth_eq)
  then show ?thesis
    by (simp add: sum_list_replicate length_submit_all)
qed


text \<open>
  C4 (amended). For every list of aggregations that holds a name outside min, max,
  mean, median, variance and p90, \<open>eval_fn\<close> returns no \<open>MetricValue\<close>. The name is checked
  only when its statistic is computed, after the scoring: when every row task returns,
  every future completes in time and the names listed before the first unknown one are
  among mean, median, variance and p90, \<open>eval_fn\<close> raises the \<open>MlflowException\<close>
  \<open>Invalid aggregate option <name>.\<close> with the code \<open>INVALID_PARAMETER_VALUE\<close>, and it has
  then made the judge call of every row.
\<close>

theorem unknown_aggregation_raises_after_scoring:
  assumes aggs: "aggregations cfg = Some aggs"
    and bad: "bad \<in> set aggs"
    and unknown: "bad \<notin> {''min'', ''max'', ''mean'', ''median'', ''variance'', ''p90''}"
  shows "(\<exists>e. snd (eval_fn cfg judge c predictions inputs args) = Inl e)
       \<and> ((\<exists>uri. eval_model cfg = PStr uri) \<and> 0 < max_workers cfg
            \<and> complete_schedule (min (length inputs) (length predictions)) c
            \<and> (\<forall>j. j < min (length inputs) (length predictions) \<longrightarrow>
                   (\<exists>r. row_task cfg judge args inputs predictions j = Inr r))
            \<and> (\<exists>pre post. aggs = pre @ bad # post
                   \<and> set pre \<subseteq> {''mean'', ''median'', ''variance'', ''p90''})
            \<longrightarrow> eval_fn cfg judge c predictions inputs args
                  = (min (length inputs) (length predictions),
                     Inl (Raised (MlflowException INVALID_PARAMETER_VALUE)
                            (''Invalid aggregate option '' @ bad @ ''.''))))"
proof -
  let ?n = "min (length inputs) (length predictions)"
  let ?tasks = "submit_all cfg judge (dict_of (zip (grading_context_columns cfg) args))
                  inputs predictions"
  have never: "\<exists>e. snd (eval_fn cfg judge c predictions inputs args) = Inl e"
  proof (cases "snd (eval_fn cfg judge c predictions inputs args)")
    case (Inl e)
    then show ?thesis by blast
  next
    case (Inr mv)
    from eval_fn_returns(1,2) [OF Inr] obtain uri where
      u: "eval_model cfg = PStr uri" and w: "0 < max_workers cfg" by blast
    have "aggregate_results_of aggs xs [] \<noteq> Inr r" for xs r
      using aggregate_results_of_unknown [OF bad unknown, of xs "[]"] by auto
    with Inr aggs show ?thesis
      by (auto simp: eval_fn_run [OF u w] Let_def split: sum.splits prod.splits if_splits)
  qed
  have after: "eval_fn cfg judge c predictions inputs args
                 = (?n, Inl (Raised (MlflowException INVALID_PARAMETER_VALUE)
                               (''Invalid aggregate option '' @ bad @ ''.'')))"
    if u: "eval_model cfg = PStr uri" and w: "0 < max_workers cfg"
      and sc: "complete_schedule ?n c"
      and rows: "\<And>j. j < ?n \<Longrightarrow> \<exists>r. row_task cfg judge args inputs predictions j = Inr r"
      and split: "aggs = pre @ bad # post"
      and pre: "set pre \<subseteq> {''mean'', ''median'', ''variance'', ''p90''}"
    for uri pre post
  proof -
    from eval_fn_scoring_returns [OF u w sc rows] obtain ss js where
      col: "collect (map snd ?tasks) c
              (replicate (length inputs) None, replicate (length inputs) None) = Inr (ss, js)"
      by blast
    from sc have len: "length c = ?n" by (simp add: complete_schedule_def)
    from aggregate_results_of_first_unknown [OF pre unknown] split
    have "aggregate_results_of aggs (map the (filter (\<lambda>score. score \<noteq> None) ss)) []
            = Inl (Raised (MlflowException INVALID_PARAMETER_VALUE)
                     (''Invalid aggregate option '' @ bad @ ''.''))"
      by simp
    with col len aggs calls_when_all_return [of inputs predictions cfg judge args, OF rows]
    show ?thesis
      by (simp add: eval_fn_run [OF u w] Let_def length_submit_all)
  qed
  from never after show ?thesis by blast
qed

theorem unknown_aggregation_witness:
  "aggregations (metric_aggregating [''mean'', ''stddev'', ''max'']) = Some [''mean'', ''stddev'', ''max'']
   \<and> ''stddev'' \<in> set [''mean'', ''stddev'', ''max'']
   \<and> ''stddev'' \<notin> {''min'', ''max'', ''mean'', ''median'', ''variance'', ''p90''}
   \<and> complete_schedule 2 [1, 0]
   \<and> eval_fn (metric_aggregating [''mean'', ''stddev'', ''max'']) good_judge [1, 0]
         [PStr ''a'', PStr ''b''] [PStr ''p'', PStr ''q''] []
       = (2, Inl (Raised (MlflowException INVALID_PARAMETER_VALUE)
                    ''Invalid aggregate option stddev.''))"
proof -
  let ?cfg = "metric_aggregating [''mean'', ''stddev'', ''max'']"
  let ?P = "[PStr ''a'', PStr ''b'']"
  let ?I = "[PStr ''p'', PStr ''q'']"
  have a: "aggregations ?cfg = Some [''mean'', ''stddev'', ''max'']"
    by (simp add: metric_aggregating_def)
  have b: "''stddev'' \<in> set [''mean'', ''stddev'', ''max'']" by simp
  have u: "''stddev'' \<notin> {''min'', ''max'', ''mean'', ''median'', ''variance'', ''p90''}"
    by simp
  have s: "complete_schedule 2 [1, 0]"
    by (simp add: complete_schedule_def schedule_def)
  note t = unknown_aggregation_raises_after_scoring
    [where judge = good_judge and c = "[1, 0]" and predictions = ?P and inputs = ?I
       and args = "[]", OF a b u]
  have m: "\<exists>uri. eval_model ?cfg = PStr uri" and w: "0 < max_workers ?cfg"
    by (simp_all add: metric_aggregating_def example_metric_def)
  have s': "complete_schedule (min (length ?I) (length ?P)) [1, 0]"
    by (simp add: complete_schedule_def schedule_def)
  have r0: "row_task ?cfg good_judge [] ?I ?P 0 = Inr (Some 4, Some ''good'')"
    and r1: "row_task ?cfg good_judge [] ?I ?P 1 = Inr (Some 4, Some ''good'')"
    by code_simp+
  have rows: "\<forall>j. j < min (length ?I) (length ?P) \<longrightarrow>
                (\<exists>r. row_task ?cfg good_judge [] ?I ?P j = Inr r)"
  proof (intro allI impI)
    fix j assume "j < min (length ?I) (length ?P)"
    then have "j = 0 \<or> j = 1" by auto
    with r0 r1 show "\<exists>r. row_task ?cfg good_judge [] ?I ?P j = Inr r" by auto
  qed
  have p: "\<exists>pre post. [''mean'', ''stddev'', ''max''] = pre @ ''stddev'' # post
             \<and> set pre \<subseteq> {''mean'', ''median'', ''variance'', ''p90''}"
    by (rule exI [of _ "[''mean'']"], rule exI [of _ "[''max'']"]) simp
  from t m w s' rows p have "eval_fn ?cfg good_judge [1, 0] ?P ?I []
      = (min (length ?I) (length ?P),
         Inl (Raised (MlflowException INVALID_PARAMETER_VALUE)
                (''Invalid aggregate option '' @ ''stddev'' @ ''.'')))"
    by blast
  then have "eval_fn ?cfg good_judge [1, 0] ?P ?I []
      = (2, Inl (Raised (MlflowException INVALID_PARAMETER_VALUE)
                   ''Invalid aggregate option stddev.''))"
    by simp
  with a b u s show ?thesis by blast
qed

text \<open>
  C4, as stated, fails on the time of the check: with the single row below and the
  unknown statistic \<open>stddev\<close>, the error is raised after one judge call has been made;
  and with \<open>min\<close> listed before \<open>stddev\<close> and a row that failed to be scored, the statistic
  \<open>min\<close> is computed first and its \<open>ValueError\<close> is what \<open>eval_fn\<close> raises.
\<close>

theorem unknown_aggregation_is_checked_after_judge_calls:
  "eval_fn (metric_aggregating [''stddev'']) good_judge [0] [PStr ''a''] [PStr ''p''] []
     = (1, Inl (Raised (MlflowException INVALID_PARAMETER_VALUE)
                  ''Invalid aggregate option stddev.''))
   \<and> eval_fn (metric_aggregating [''min'', ''stddev'']) (judge_raising 0 rate_limited) [0]
         [PStr ''a''] [PStr ''p''] []
       = (1, Inl (Raised ValueError
                    ''zero-size array to reduction operation minimum which has no identity''))"
  by code_simp

section \<open>Sequences of different lengths\<close>







section \<open>Where the code departs from its description\<close>

text \<open>
  C7. The claim that the parser is total fails on the code: \<open>text\<close> is assigned only
  for a \<open>dict\<close> with a non-empty list of candidates, so every other response (a plain
  text, a list, \<open>None\<close>, a \<open>dict\<close> without candidates or with an empty list of them)
  makes the parser raise \<open>UnboundLocalError\<close> instead of being read as text; and a first
  candidate without the key \<open>text\<close> makes it raise \<open>KeyError\<close>.
\<close>

theorem parser_raises_without_candidates:
  "extract_score_and_justification (PStr s)
     = Inl (Raised UnboundLocalError
              (''cannot access local variable '' @ [squote] @ ''text'' @ [squote]
               @ '' where it is not associated with a value''))
   \<and> extract_score_and_justification (PStr ''score: 3, justification: partially correct'')
       = extract_score_and_justification PNone
   \<and> extract_score_and_justification (PList xs) = extract_score_and_justification PNone
   \<and> extract_score_and_justification PNone = extract_score_and_justification (PStr s)
   \<and> extract_score_and_justification (PDict []) = extract_score_and_justification (PStr s)
   \<and> extract_score_and_justification (PDict [(''candidates'', PList [])])
       = extract_score_and_justification (PStr s)
   \<and> extract_score_and_justification (PDict [(''candidates'', PList [PDict []])])
       = Inl (Raised KeyError ''text'')"
  by (simp add: extract_score_and_justification_def)

text \<open>
  C9. The claim fails on the code for a score that is not numeric: on valid JSON
  whose score is missing, is a text that is no number, or that is no object at all, the
  coercion \<open>int(data.get("score"))\<close> raises inside the parser, before the check of the
  types, and the parser returns nothing. The diagnostic is returned where the claim's
  other conditions hold: a text that matches neither format, and a justification that is
  no text.
\<close>

theorem parser_raises_on_unusable_score:
  \<open>extract_score_and_justification (candidates_response ''{"justification": "good"}'')
     = Inl (Raised TypeError
              (''int() argument must be a string, a bytes-like object or a real number, not ''
               @ [squote] @ ''NoneType'' @ [squote]))
   \<and> extract_score_and_justification
         (candidates_response ''{"score": "high", "justification": "good"}'')
       = Inl (Raised ValueError
                (''invalid literal for int() with base 10: '' @ [squote] @ ''high'' @ [squote]))
   \<and> extract_score_and_justification (candidates_response ''[4, "good"]'')
       = Inl (Raised AttributeError
                ([squote] @ ''list'' @ [squote] @ '' object has no attribute ''
                 @ [squote] @ ''get'' @ [squote]))
   \<and> extract_score_and_justification (candidates_response ''no verdict'')
       = Inr (None, Some (''Failed to extract score and justification. Raw output: ''
                          @ py_str (candidates_response ''no verdict'')))
   \<and> extract_score_and_justification (candidates_response ''{"score": 4, "justification": 5}'')
       = Inr (None, Some (''Failed to extract score and justification. Raw output: ''
                          @ py_str (candidates_response ''{"score": 4, "justification": 5}'')))
   \<and> py_str (candidates_response ''no verdict'')
       = ''{'' @ [squote] @ ''candidates'' @ [squote] @ '': [{'' @ [squote] @ ''text''
         @ [squote] @ '': '' @ [squote] @ ''no verdict'' @ [squote] @ ''}]}''\<close>
  by code_simp

text \<open>
  C5. The claim fails on the code for \<open>min\<close> and \<open>max\<close>: on the empty list of scores
  \<open>np.min\<close> and \<open>np.max\<close> raise \<open>ValueError\<close>, so that a batch whose rows all failed makes
  \<open>eval_fn\<close> raise. The other statistics have a value there: \<open>nan\<close> for mean, median and
  variance, and \<open>None\<close> for p90, whose entry of \<open>options\<close> tests for the empty list.
\<close>

theorem min_and_max_raise_on_empty_scores:
  "aggregate_function ''min'' []
     = Inl (Raised ValueError
              ''zero-size array to reduction operation minimum which has no identity'')
   \<and> aggregate_function ''max'' []
       = Inl (Raised ValueError
                ''zero-size array to reduction operation maximum which has no identity'')
   \<and> aggregate_function ''mean'' [] = Inr NotANumber
   \<and> aggregate_function ''median'' [] = Inr NotANumber
   \<and> aggregate_function ''variance'' [] = Inr NotANumber
   \<and> aggregate_function ''p90'' [] = Inr NoValue
   \<and> eval_fn (metric_aggregating [''min'']) (judge_raising 0 rate_limited) [0]
         [PStr ''a''] [PStr ''p''] []
       = (1, Inl (Raised ValueError
                    ''zero-size array to reduction operation minimum which has no identity''))
   \<and> eval_fn (metric_aggregating [''mean'', ''p90'']) (judge_raising 0 rate_limited) [0]
         [PStr ''a''] [PStr ''p''] []
       = (1, Inr \<lparr>scores = [None],
                  justifications =
                    [Some ''Failed to score model on payload. Error: 429 Too Many Requests''],
                  aggregate_results = [(''mean'', NotANumber), (''p90'', NoValue)]\<rparr>)"
  by code_simp

section \<open>The parser on the documented responses\<close>

text \<open>
  C8. The parser tries the structured format first and the regular expression second.
  The candidate text \<open>{"score": 4, "justification": "good"}\<close> is decoded as JSON and
  parses to score 4 with justification \<open>good\<close>. The candidate text
  \<open>score: 3, justification: partially correct\<close> is rejected by the JSON decoder with a
  \<open>JSONDecodeError\<close> and parses, through the regular expression, to score 3 with
  justification \<open>partially correct\<close>. A text that is valid JSON and also holds a match of
  the regular expression is read as JSON.
\<close>

theorem structured_first_regex_second:
  \<open>parse_json (PStr ''{"score": 4, "justification": "good"}'') = Inr (4, JStr ''good'')
   \<and> extract_score_and_justification
         (candidates_response ''{"score": 4, "justification": "good"}'')
       = Inr (Some 4, Some ''good'')
   \<and> parse_json (PStr ''score: 3, justification: partially correct'')
       = Inl (Raised JSONDecodeError ''Expecting value'')
   \<and> extract_score_and_justification
         (candidates_response ''score: 3, justification: partially correct'')
       = Inr (Some 3, Some ''partially correct'')
   \<and> extract_score_and_justification
         (candidates_response ''{"score": 4, "justification": "score: 3, justification: x"}'')
       = Inr (Some 4, Some ''score: 3, justification: x'')\<close>
  by code_simp

end
